theory Spec2Isabelle
  imports Main "HOL-Library.Sublist"
begin

section \<open>The Sphinx configuration of hed-matlab (docs/source/conf.py)\<close>

text \<open>
  The module \<^verbatim>\<open>docs/source/conf.py\<close> is run once, top to bottom. It reads from outside:
  the installed theme package (\<^verbatim>\<open>import sphinx_rtd_theme\<close> and its
  \<^verbatim>\<open>get_html_theme_path\<close>), the system date (\<^verbatim>\<open>date.today()\<close>), the platform's
  \<^verbatim>\<open>os.path\<close> module and, through \<^verbatim>\<open>os.path.abspath\<close>, the working directory of the
  process. Everything else is a literal. The module's global names after a complete run
  are the configuration. The imports of the standard library (lines 13, 14 and 16),
  \<^verbatim>\<open>date.today()\<close> and \<^verbatim>\<open>str.format\<close> are taken to return.
\<close>

subsection \<open>Python values and exceptions\<close>

datatype pyval = PStr string | PBool bool | PInt int

text \<open>
  An exception: the name of its class and the name it carries (the module that was not
  found, the attribute that is missing, the path of an \<^verbatim>\<open>OSError\<close>). The module has no
  \<^verbatim>\<open>try\<close>, so whatever is raised ends the run.
\<close>

datatype error = Raised (exc_class: string) (exc_name: string)

record date =
  year :: int
  month :: int
  day :: int

text \<open>
  The imported \<^verbatim>\<open>sphinx_rtd_theme\<close> module object. Its attribute
  \<^verbatim>\<open>get_html_theme_path\<close> is \<open>None\<close> when the installed release has no such attribute;
  otherwise it holds what the call \<^verbatim>\<open>get_html_theme_path()\<close> does: raise, or return a
  path.
\<close>

record theme_module =
  get_html_theme_path :: "(error + string) option"

text \<open>
  The functions of \<^verbatim>\<open>os.path\<close> that matter here. Which module \<^verbatim>\<open>os.path\<close> is depends
  on the platform (\<^verbatim>\<open>posixpath\<close> or \<^verbatim>\<open>ntpath\<close>), so it is part of the environment.
  \<open>path_abspath\<close> takes what \<^verbatim>\<open>os.getcwd()\<close> would do, then the path.
\<close>

record path_module =
  path_join :: "string \<Rightarrow> string list \<Rightarrow> string"
  path_abspath :: "error + string \<Rightarrow> string \<Rightarrow> error + string"
  path_dirname :: "string \<Rightarrow> string"

text \<open>
  What the run finds outside the module. \<open>sphinx_rtd_theme\<close> is what the import statement
  of line 15 does: it raises (the package is not installed, or the package's own
  initialisation raises, for instance because Sphinx itself is missing) or binds the
  module. \<open>getcwd\<close> is what \<^verbatim>\<open>os.getcwd()\<close> does: it raises an \<^verbatim>\<open>OSError\<close> (the working
  directory no longer exists) or returns the directory. \<open>script_file\<close> is the module's
  own \<^verbatim>\<open>__file__\<close>, which the module never reads.
\<close>

record environment =
  sphinx_rtd_theme :: "error + theme_module"
  today :: date
  getcwd :: "error + string"
  script_file :: string
  os_path :: path_module

subsection \<open>\<^verbatim>\<open>str\<close> of an integer and \<^verbatim>\<open>str.format\<close> with one field\<close>

definition digit_char :: "nat \<Rightarrow> char" where
  "digit_char d = ''0123456789'' ! d"

function str_nat :: "nat \<Rightarrow> string" where
  "str_nat n = (if n < 10 then [digit_char n] else str_nat (n div 10) @ [digit_char (n mod 10)])"
  by pat_completeness auto
termination
  by (relation "measure (\<lambda>n. n)") auto

declare str_nat.simps [simp del]

definition str_int :: "int \<Rightarrow> string" where
  "str_int i = (if i < 0 then CHR ''-'' # str_nat (nat (- i)) else str_nat (nat i))"

text \<open>
  \<^verbatim>\<open>template.format(arg)\<close> for a template whose only braces are one \<^verbatim>\<open>{}\<close> field: the
  field is replaced by the argument, the text around it is kept.
\<close>

fun format1 :: "string \<Rightarrow> string \<Rightarrow> string" where
  "format1 [] a = []"
| "format1 [c] a = [c]"
| "format1 (c # d # cs) a =
     (if c = CHR ''{'' \<and> d = CHR ''}'' then a @ cs else c # format1 (d # cs) a)"


text \<open>
  Reading a decimal numeral: the digits, and the number a string of digits denotes. These
  say what it means for a string to be the decimal form of a year; the module does not
  call them.
\<close>

definition is_digit :: "char \<Rightarrow> bool" where
  "is_digit c = (c \<in> set ''0123456789'')"

definition digit_value :: "char \<Rightarrow> nat" where
  "digit_value c = of_char c - 48"

definition decimal_value :: "string \<Rightarrow> nat" where
  "decimal_value s = foldl (\<lambda>a c. 10 * a + digit_value c) 0 s"

subsection \<open>\<^verbatim>\<open>posixpath\<close>: join, normpath, abspath, dirname\<close>

text \<open>
  What \<^verbatim>\<open>os.path\<close> is on a POSIX platform. These follow the standard library's
  \<^verbatim>\<open>posixpath\<close>: \<^verbatim>\<open>str.split('/')\<close>, \<^verbatim>\<open>'/'.join\<close>, \<^verbatim>\<open>join(a, *p)\<close>,
  \<^verbatim>\<open>normpath\<close>, \<^verbatim>\<open>isabs\<close>, \<^verbatim>\<open>abspath\<close> and \<^verbatim>\<open>dirname\<close>.
\<close>

fun split_sep :: "char \<Rightarrow> string \<Rightarrow> string list" where
  "split_sep c [] = [[]]"
| "split_sep c (x # xs) =
     (if x = c then [] # split_sep c xs
      else (case split_sep c xs of [] \<Rightarrow> [[x]] | y # ys \<Rightarrow> (x # y) # ys))"

fun join_sep :: "string \<Rightarrow> string list \<Rightarrow> string" where
  "join_sep s [] = []"
| "join_sep s [x] = x"
| "join_sep s (x # y # ys) = x @ s @ join_sep s (y # ys)"

definition startswith :: "string \<Rightarrow> string \<Rightarrow> bool" where
  "startswith s p = (take (length p) s = p)"

definition endswith :: "string \<Rightarrow> string \<Rightarrow> bool" where
  "endswith s p = (length p \<le> length s \<and> drop (length s - length p) s = p)"

text \<open>One round of the loop of \<^verbatim>\<open>join\<close>: \<open>path\<close> so far, next component \<open>b\<close>.\<close>

definition join_step :: "string \<Rightarrow> string \<Rightarrow> string" where
  "join_step path b =
     (if startswith b ''/'' then b
      else if path = [] \<or> endswith path ''/'' then path @ b
      else path @ ''/'' @ b)"

definition posix_join :: "string \<Rightarrow> string list \<Rightarrow> string" where
  "posix_join a p = foldl join_step a p"

text \<open>
  One round of the loop of \<^verbatim>\<open>normpath\<close>; \<open>initial_slashes\<close> is 0, 1 or 2 and
  \<open>new_comps\<close> the components kept so far, \<open>cmp\<close> the loop's \<^verbatim>\<open>comp\<close>.
\<close>

definition norm_step :: "nat \<Rightarrow> string list \<Rightarrow> string \<Rightarrow> string list" where
  "norm_step initial_slashes new_comps cmp =
     (if cmp = [] \<or> cmp = ''.'' then new_comps
      else if cmp \<noteq> ''..'' \<or> (initial_slashes = 0 \<and> new_comps = [])
              \<or> (new_comps \<noteq> [] \<and> last new_comps = ''..'')
      then new_comps @ [cmp]
      else if new_comps \<noteq> [] then butlast new_comps
      else new_comps)"

definition count_initial_slashes :: "string \<Rightarrow> nat" where
  "count_initial_slashes path =
     (if startswith path ''/'' then
        (if startswith path ''//'' \<and> \<not> startswith path ''///'' then 2 else 1)
      else 0)"

definition normpath :: "string \<Rightarrow> string" where
  "normpath path =
     (if path = [] then ''.''
      else
        let initial_slashes = count_initial_slashes path;
            comps = foldl (norm_step initial_slashes) [] (split_sep CHR ''/'' path);
            joined = join_sep ''/'' comps;
            res = (if initial_slashes \<noteq> 0 then replicate initial_slashes CHR ''/'' @ joined
                   else joined)
        in if res = [] then ''.'' else res)"

definition isabs :: "string \<Rightarrow> bool" where
  "isabs path = startswith path ''/''"

text \<open>
  \<^verbatim>\<open>abspath\<close> asks for the working directory only when the path is relative; an
  exception of \<^verbatim>\<open>os.getcwd()\<close> is not caught.
\<close>

definition posix_abspath :: "error + string \<Rightarrow> string \<Rightarrow> error + string" where
  "posix_abspath getcwd_result path =
     (if \<not> isabs path then
        (case getcwd_result of
           Inl e \<Rightarrow> Inl e
         | Inr cwd \<Rightarrow> Inr (normpath (posix_join cwd [path])))
      else Inr (normpath path))"

text \<open>
  \<^verbatim>\<open>dirname\<close>: the part of \<open>p\<close> up to its last slash, without trailing slashes unless it
  is slashes only.
\<close>

definition posix_dirname :: "string \<Rightarrow> string" where
  "posix_dirname p =
     (let head = rev (dropWhile (\<lambda>c. c \<noteq> CHR ''/'') (rev p))
      in if head \<noteq> [] \<and> head \<noteq> replicate (length head) CHR ''/''
         then rev (dropWhile (\<lambda>c. c = CHR ''/'') (rev head))
         else head)"

definition posixpath :: path_module where
  "posixpath = \<lparr> path_join = posix_join, path_abspath = posix_abspath,
                 path_dirname = posix_dirname \<rparr>"

subsection \<open>The calls into \<^verbatim>\<open>os.path\<close>\<close>

definition os_path_join :: "environment \<Rightarrow> string \<Rightarrow> string list \<Rightarrow> string" where
  "os_path_join env a p = path_join (os_path env) a p"

definition os_path_abspath :: "environment \<Rightarrow> string \<Rightarrow> error + string" where
  "os_path_abspath env path = path_abspath (os_path env) (getcwd env) path"

definition os_path_dirname :: "environment \<Rightarrow> string \<Rightarrow> string" where
  "os_path_dirname env p = path_dirname (os_path env) p"

subsection \<open>The configuration\<close>

record BuildConfiguration =
  project :: string
  copyright :: string
  author :: string
  version :: string
  release :: string
  matlab_src_dir :: string
  extensions :: "string list"
  primary_domain :: string
  autosummary_generate :: bool
  autodoc_default_flags :: "string list"
  add_module_names :: bool
  myst_all_links_external :: bool
  myst_heading_anchors :: int
  myst_enable_extensions :: "string list"
  templates_path :: "string list"
  source_suffix :: "string list"
  master_doc :: string
  exclude_patterns :: "string list"
  pygments_style :: string
  html_theme :: string
  html_theme_path :: "string list"
  html_theme_options :: "(string \<times> pyval) list"
  html_static_path :: "string list"


text \<open>
  Line 66, \<^verbatim>\<open>sphinx_rtd_theme.get_html_theme_path()\<close>: the attribute lookup, then the
  call.
\<close>

definition call_get_html_theme_path :: "theme_module \<Rightarrow> error + string" where
  "call_get_html_theme_path m =
     (case get_html_theme_path m of
        None \<Rightarrow> Inl (Raised ''AttributeError'' ''get_html_theme_path'')
      | Some r \<Rightarrow> r)"

text \<open>Line 24, the right-hand side of \<^verbatim>\<open>copyright = ...\<close>.\<close>

definition copyright_notice :: "date \<Rightarrow> string" where
  "copyright_notice d = format1 ''2017-{}, HED Working Group'' (str_int (year d))"

text \<open>Line 32, the right-hand side of \<^verbatim>\<open>matlab_src_dir = ...\<close>: the resolution step.\<close>

definition resolve_matlab_src_dir :: "environment \<Rightarrow> error + string" where
  "resolve_matlab_src_dir env = os_path_abspath env (os_path_join env ''..'' [''..''])"

text \<open>Lines 71 to 86, the dictionary literal, in its order.\<close>

definition theme_options :: "(string \<times> pyval) list" where
  "theme_options =
     [(''analytics_id'', PStr ''UA-XXXXXXX-1''),
      (''analytics_anonymize_ip'', PBool False),
      (''logo_only'', PBool False),
      (''display_version'', PBool True),
      (''prev_next_buttons_location'', PStr ''top''),
      (''style_external_links'', PBool False),
      (''vcs_pageview_mode'', PStr []),
      (''style_nav_header_background'', PStr ''LightSlateGray''),
      (''collapse_navigation'', PBool False),
      (''sticky_navigation'', PBool True),
      (''navigation_depth'', PInt 4),
      (''includehidden'', PBool True),
      (''titles_only'', PBool False)]"


text \<open>
  The whole module, in statement order: the import of line 15 comes first, the path of
  line 32 next, the theme path of line 66 last; the first exception ends the run.
\<close>

definition conf :: "environment \<Rightarrow> error + BuildConfiguration" where
  "conf env =
     (case sphinx_rtd_theme env of
        Inl e \<Rightarrow> Inl e
      | Inr theme \<Rightarrow>
     (case resolve_matlab_src_dir env of
        Inl e \<Rightarrow> Inl e
      | Inr src_dir \<Rightarrow>
     (case call_get_html_theme_path theme of
        Inl e \<Rightarrow> Inl e
      | Inr theme_path \<Rightarrow>
        Inr \<lparr> project = ''HED Resources'',
              copyright = copyright_notice (today env),
              author = ''HED Working Group'',
              version = ''0.0.1'',
              release = ''0.0.1'',
              matlab_src_dir = src_dir,
              extensions = [''myst_parser'', ''sphinxcontrib.matlab'', ''sphinx.ext.autodoc''],
              primary_domain = ''mat'',
              autosummary_generate = True,
              autodoc_default_flags = [''members'', ''inherited-members''],
              add_module_names = False,
              myst_all_links_external = False,
              myst_heading_anchors = 4,
              myst_enable_extensions = [''deflist''],
              templates_path = [''_templates''],
              source_suffix = [''.rst'', ''.md''],
              master_doc = ''index'',
              exclude_patterns = [''_build'', ''_templates'', ''Thumbs.db'', ''.DS_Store''],
              pygments_style = ''sphinx'',
              html_theme = ''sphinx_rtd_theme'',
              html_theme_path = [theme_path],
              html_theme_options = theme_options,
              html_static_path = [''_static''] \<rparr>)))"


subsection \<open>The caller\<close>





subsection \<open>Concrete environments\<close>

text \<open>
  A POSIX host on which the theme is installed and Sphinx runs the script at
  \<^verbatim>\<open>/repo/docs/source/conf.py\<close>.
\<close>

definition env_2024 :: environment where
  "env_2024 =
     \<lparr> sphinx_rtd_theme =
         Inr \<lparr> get_html_theme_path = Some (Inr ''/usr/lib/python3/sphinx_rtd_theme'') \<rparr>,
       today = \<lparr> year = 2024, month = 6, day = 1 \<rparr>,
       getcwd = Inr ''/repo/docs/source'',
       script_file = ''/repo/docs/source/conf.py'',
       os_path = posixpath \<rparr>"

definition env_2017 :: environment where
  "env_2017 = env_2024 \<lparr> today := \<lparr> year = 2017, month = 12, day = 31 \<rparr> \<rparr>"

definition env_year_1 :: environment where
  "env_year_1 = env_2024 \<lparr> today := \<lparr> year = 1, month = 1, day = 1 \<rparr> \<rparr>"

definition env_9999 :: environment where
  "env_9999 = env_2024 \<lparr> today := \<lparr> year = 9999, month = 12, day = 31 \<rparr> \<rparr>"

text \<open>Environments in which one of the outside reads raises.\<close>

definition env_no_theme :: environment where
  "env_no_theme =
     env_2024 \<lparr> sphinx_rtd_theme := Inl (Raised ''ModuleNotFoundError'' ''sphinx_rtd_theme'') \<rparr>"

text \<open>The theme is installed and Sphinx is not: the theme's own initialisation raises.\<close>

definition env_no_sphinx :: environment where
  "env_no_sphinx =
     env_2024 \<lparr> sphinx_rtd_theme := Inl (Raised ''ModuleNotFoundError'' ''sphinx'') \<rparr>"

definition env_no_cwd :: environment where
  "env_no_cwd = env_2024 \<lparr> getcwd := Inl (Raised ''FileNotFoundError'' []) \<rparr>"

definition env_no_helper :: environment where
  "env_no_helper = env_2024 \<lparr> sphinx_rtd_theme := Inr \<lparr> get_html_theme_path = None \<rparr> \<rparr>"

definition env_helper_raises :: environment where
  "env_helper_raises =
     env_2024 \<lparr> sphinx_rtd_theme :=
       Inr \<lparr> get_html_theme_path = Some (Inl (Raised ''RuntimeError'' [])) \<rparr> \<rparr>"

subsection \<open>Normal component lists\<close>


section \<open>Properties\<close>

lemma conf_Inr_fields:
  assumes "conf env = Inr cfg"
  shows "version cfg = ''0.0.1''" and "release cfg = ''0.0.1''"
    and "copyright cfg = copyright_notice (today env)"
    and "extensions cfg = [''myst_parser'', ''sphinxcontrib.matlab'', ''sphinx.ext.autodoc'']"
    and "templates_path cfg = [''_templates'']"
    and "source_suffix cfg = [''.rst'', ''.md'']"
    and "exclude_patterns cfg = [''_build'', ''_templates'', ''Thumbs.db'', ''.DS_Store'']"
    and "html_static_path cfg = [''_static'']"
  using assms
  by (auto simp: conf_def split: sum.splits)

subsection \<open>Evaluating a run\<close>

lemmas path_defs =
  os_path_join_def os_path_abspath_def os_path_dirname_def posixpath_def
  posix_abspath_def posix_join_def posix_dirname_def
  isabs_def startswith_def endswith_def join_step_def
  normpath_def count_initial_slashes_def norm_step_def

lemmas run_defs =
  conf_def resolve_matlab_src_dir_def call_get_html_theme_path_def path_defs

lemmas env_defs =
  env_2024_def env_2017_def env_year_1_def env_9999_def
  env_no_theme_def env_no_sphinx_def env_no_cwd_def env_no_helper_def env_helper_raises_def

lemma copyright_notice_eq:
  "copyright_notice d = ''2017-'' @ str_int (year d) @ '', HED Working Group''"
  by (simp add: copyright_notice_def)

lemma str_int_2024: "str_int 2024 = ''2024''"
  by (simp add: str_int_def str_nat.simps digit_char_def)

lemma str_int_2017: "str_int 2017 = ''2017''"
  by (simp add: str_int_def str_nat.simps digit_char_def)

lemma conf_env_2024_ok: "conf env_2024 = Inr (projr (conf env_2024))"
  by (simp add: run_defs env_defs)

lemma conf_env_2017_ok: "conf env_2017 = Inr (projr (conf env_2017))"
  by (simp add: run_defs env_defs)


subsection \<open>\<^verbatim>\<open>normpath\<close> returns a fixed point of itself\<close>















lemma join_sep_Nil_iff: "\<forall>x \<in> set cs. x \<noteq> [] \<Longrightarrow> join_sep s cs = [] \<longleftrightarrow> cs = []"
  by (induction s cs rule: join_sep.induct) auto










subsection \<open>The decimal form of a number\<close>

lemma digit_char_table:
  "\<forall>d \<in> set [0..<10].
     digit_value (digit_char d) = d \<and> is_digit (digit_char d) \<and>
     (0 < d \<longrightarrow> digit_char d \<noteq> CHR ''0'')"
  by code_simp

lemma digit_char_value:
  assumes "d < 10"
  shows "digit_value (digit_char d) = d" and "is_digit (digit_char d)"
    and "0 < d \<longrightarrow> digit_char d \<noteq> CHR ''0''"
proof -
  from assms have "d \<in> set [0..<10]" by simp
  then show "digit_value (digit_char d) = d" and "is_digit (digit_char d)"
    and "0 < d \<longrightarrow> digit_char d \<noteq> CHR ''0''"
    using digit_char_table by blast+
qed

lemma decimal_value_snoc:
  "decimal_value (xs @ [c]) = 10 * decimal_value xs + digit_value c"
  by (simp add: decimal_value_def)

lemma decimal_value_single: "decimal_value [c] = digit_value c"
  by (simp add: decimal_value_def)

lemma str_nat_decimal: "decimal_value (str_nat n) = n"
proof (induction n rule: str_nat.induct)
  case (1 n)
  show ?case
  proof (cases "n < 10")
    case True
    then show ?thesis
      by (subst str_nat.simps) (simp add: decimal_value_single digit_char_value)
  next
    case False
    then have "decimal_value (str_nat (n div 10)) = n div 10" using 1 by simp
    moreover have "n mod 10 < 10" by simp
    ultimately show ?thesis using False
      by (subst str_nat.simps) (simp add: decimal_value_snoc digit_char_value)
  qed
qed

lemma str_nat_digits: "c \<in> set (str_nat n) \<Longrightarrow> is_digit c"
proof (induction n arbitrary: c rule: str_nat.induct)
  case (1 n)
  show ?case
  proof (cases "n < 10")
    case True
    then show ?thesis using "1.prems"
      by (subst (asm) str_nat.simps) (simp add: digit_char_value)
  next
    case False
    have "n mod 10 < 10" by simp
    then have "is_digit (digit_char (n mod 10))" by (rule digit_char_value)
    then show ?thesis using False 1
      by (subst (asm) (2) str_nat.simps) auto
  qed
qed

lemma str_nat_nonempty: "str_nat n \<noteq> []"
  by (subst str_nat.simps) simp

lemma str_nat_no_leading_zero: "0 < n \<Longrightarrow> hd (str_nat n) \<noteq> CHR ''0''"
proof (induction n rule: str_nat.induct)
  case (1 n)
  show ?case
  proof (cases "n < 10")
    case True
    then have "digit_char n \<noteq> CHR ''0''"
      using "1.prems" digit_char_value(3) by blast
    then show ?thesis using True
      by (subst str_nat.simps) simp
  next
    case False
    then have "0 < n div 10" by simp
    then have "hd (str_nat (n div 10)) \<noteq> CHR ''0''" using 1 False by simp
    then show ?thesis using False
      by (subst str_nat.simps) (simp add: str_nat_nonempty)
  qed
qed

lemma str_int_decimal:
  assumes "0 \<le> y"
  shows "str_int y \<noteq> []" and "\<forall>c \<in> set (str_int y). is_digit c"
    and "int (decimal_value (str_int y)) = y"
    and "0 < y \<longrightarrow> hd (str_int y) \<noteq> CHR ''0''"
  using assms
  by (auto simp: str_int_def str_nat_nonempty str_nat_decimal str_nat_no_leading_zero
      dest: str_nat_digits)

subsection \<open>Two levels up\<close>















section \<open>The claims\<close>

subsection \<open>Literal settings\<close>

text \<open>
  Claim C4. The extension list of every produced configuration is exactly
  \<^verbatim>\<open>["myst_parser", "sphinxcontrib.matlab", "sphinx.ext.autodoc"]\<close>, in that order; so it
  is not empty and no entry occurs twice.
\<close>

theorem extensions_exact:
  "conf env = Inr cfg \<Longrightarrow>
   extensions cfg = [''myst_parser'', ''sphinxcontrib.matlab'', ''sphinx.ext.autodoc''] \<and>
   extensions cfg \<noteq> [] \<and> distinct (extensions cfg)"
  by (simp add: conf_Inr_fields)

theorem extensions_exact_witness:
  "extensions (projr (conf env_2024)) =
     [''myst_parser'', ''sphinxcontrib.matlab'', ''sphinx.ext.autodoc''] \<and>
   extensions (projr (conf env_2024)) \<noteq> [] \<and>
   distinct (extensions (projr (conf env_2024)))"
  by (rule extensions_exact [OF conf_env_2024_ok])

text \<open>
  Claim C8. In every produced configuration the version string equals the release
  string, and both are \<^verbatim>\<open>"0.0.1"\<close>.
\<close>

theorem version_release:
  "conf env = Inr cfg \<Longrightarrow>
   version cfg = release cfg \<and> version cfg = ''0.0.1'' \<and> release cfg = ''0.0.1''"
  by (simp add: conf_Inr_fields)

theorem version_release_witness:
  "version (projr (conf env_2024)) = release (projr (conf env_2024)) \<and>
   version (projr (conf env_2024)) = ''0.0.1'' \<and>
   release (projr (conf env_2024)) = ''0.0.1''"
  by (rule version_release [OF conf_env_2024_ok])

text \<open>
  Claim C9. Every produced configuration has exactly the two source suffixes
  \<^verbatim>\<open>".rst"\<close> and \<^verbatim>\<open>".md"\<close>, in that order.
\<close>

theorem source_suffix_exact:
  "conf env = Inr cfg \<Longrightarrow> source_suffix cfg = [''.rst'', ''.md'']"
  by (simp add: conf_Inr_fields)

theorem source_suffix_exact_witness:
  "source_suffix (projr (conf env_2024)) = [''.rst'', ''.md'']"
  by (rule source_suffix_exact [OF conf_env_2024_ok])

subsection \<open>Exclusion patterns\<close>

text \<open>
  Claim C1 as stated, that no exclusion pattern equals a template path, fails: line 59
  lists \<^verbatim>\<open>'_templates'\<close> among the exclusion patterns and line 52 gives it as the
  template path.
\<close>

theorem exclude_patterns_templates_path_counterexample:
  "\<not> isl (conf env_2024) \<and>
   ''_templates'' \<in> set (exclude_patterns (projr (conf env_2024))) \<and>
   ''_templates'' \<in> set (templates_path (projr (conf env_2024))) \<and>
   set (exclude_patterns (projr (conf env_2024))) \<inter>
     set (templates_path (projr (conf env_2024))) \<noteq> {}"
  by (simp add: run_defs env_defs)

text \<open>
  Claim C1, amended. The exclusion patterns and the template path of every produced
  configuration have exactly one string in common, \<^verbatim>\<open>"_templates"\<close>: the template
  directory is excluded from the search for source files, and no other exclusion pattern
  is a template path.
\<close>

theorem exclude_patterns_templates_path_overlap:
  "conf env = Inr cfg \<Longrightarrow>
   set (exclude_patterns cfg) \<inter> set (templates_path cfg) = {''_templates''}"
  by (simp add: conf_Inr_fields)

theorem exclude_patterns_templates_path_overlap_witness:
  "set (exclude_patterns (projr (conf env_2024))) \<inter>
     set (templates_path (projr (conf env_2024))) = {''_templates''}"
  by (rule exclude_patterns_templates_path_overlap [OF conf_env_2024_ok])

text \<open>
  Claim C10. The static asset path of every produced configuration is
  \<^verbatim>\<open>['_static']\<close>, and none of its elements is an exclusion pattern.
\<close>

theorem html_static_path_not_excluded:
  "conf env = Inr cfg \<Longrightarrow>
   html_static_path cfg = [''_static''] \<and>
   set (html_static_path cfg) \<inter> set (exclude_patterns cfg) = {}"
  by (simp add: conf_Inr_fields)

theorem html_static_path_not_excluded_witness:
  "html_static_path (projr (conf env_2024)) = [''_static''] \<and>
   set (html_static_path (projr (conf env_2024))) \<inter>
     set (exclude_patterns (projr (conf env_2024))) = {}"
  by (rule html_static_path_not_excluded [OF conf_env_2024_ok])

subsection \<open>The copyright notice\<close>

text \<open>
  Claim C3. When the year of the system date is 2024, the copyright string of the
  produced configuration is exactly \<^verbatim>\<open>"2017-2024, HED Working Group"\<close>.
\<close>

theorem copyright_2024:
  "year (today env) = 2024 \<Longrightarrow> conf env = Inr cfg \<Longrightarrow>
   copyright cfg = ''2017-2024, HED Working Group''"
  by (simp add: conf_Inr_fields copyright_notice_eq str_int_2024)

theorem copyright_2024_witness:
  "year (today env_2024) = 2024 \<and>
   copyright (projr (conf env_2024)) = ''2017-2024, HED Working Group''"
proof -
  have y: "year (today env_2024) = 2024" by (simp add: env_2024_def)
  show ?thesis using y copyright_2024 [OF y conf_env_2024_ok] by simp
qed


text \<open>
  Claim C5. For every system date, the copyright string of the produced configuration
  is \<^verbatim>\<open>2017-\<close>, then the year of the date, then \<^verbatim>\<open>, HED Working Group\<close>; so it
  contains the start year \<^verbatim>\<open>2017\<close> and the year of the date. The year is written in
  decimal: for a year that is not negative (the years of dates are 1 to 9999) the
  rendering is a string of digits whose decimal value is the year, without a leading zero
  for a positive year. For a date in 2017 the string is the literal
  \<^verbatim>\<open>"2017-2017, HED Working Group"\<close>. The date has no part in whether the run fails:
  replacing it by any other date \<open>d\<close> leaves failure or success as it was.
\<close>

theorem copyright_contains_both_years:
  "(conf env = Inr cfg \<longrightarrow>
      copyright cfg = ''2017-'' @ str_int (year (today env)) @ '', HED Working Group'' \<and>
      sublist ''2017'' (copyright cfg) \<and>
      sublist (str_int (year (today env))) (copyright cfg) \<and>
      (0 \<le> year (today env) \<longrightarrow>
         str_int (year (today env)) \<noteq> [] \<and>
         (\<forall>c \<in> set (str_int (year (today env))). is_digit c) \<and>
         int (decimal_value (str_int (year (today env)))) = year (today env) \<and>
         (0 < year (today env) \<longrightarrow> hd (str_int (year (today env))) \<noteq> CHR ''0'')) \<and>
      (year (today env) = 2017 \<longrightarrow> copyright cfg = ''2017-2017, HED Working Group'')) \<and>
   isl (conf (env \<lparr> today := d \<rparr>)) = isl (conf env)"
proof (intro conjI impI)
  assume run: "conf env = Inr cfg"
  show c: "copyright cfg = ''2017-'' @ str_int (year (today env)) @ '', HED Working Group''"
    using run by (simp add: conf_Inr_fields copyright_notice_eq)
  have "copyright cfg = ''2017'' @ (''-'' @ str_int (year (today env)) @ '', HED Working Group'')"
    using c by simp
  then show "sublist ''2017'' (copyright cfg)"
    using sublist_append_rightI by metis
  show "sublist (str_int (year (today env))) (copyright cfg)"
    unfolding c by (rule sublist_appendI)
  {
    assume "year (today env) = 2017"
    then show "copyright cfg = ''2017-2017, HED Working Group''"
      using c by (simp add: str_int_2017)
  }
  assume nonneg: "0 \<le> year (today env)"
  show "str_int (year (today env)) \<noteq> []"
    using nonneg by (rule str_int_decimal)
  show "\<forall>c \<in> set (str_int (year (today env))). is_digit c"
    using nonneg by (rule str_int_decimal)
  show "int (decimal_value (str_int (year (today env)))) = year (today env)"
    using nonneg by (rule str_int_decimal)
  assume "0 < year (today env)"
  then show "hd (str_int (year (today env))) \<noteq> CHR ''0''"
    using str_int_decimal(4) [OF nonneg] by simp
next
  show "isl (conf (env \<lparr> today := d \<rparr>)) = isl (conf env)"
    by (simp add: conf_def resolve_matlab_src_dir_def os_path_abspath_def os_path_join_def
        split: option.splits sum.splits)
qed

theorem copyright_contains_both_years_witness:
  "year (today env_2017) = 2017 \<and>
   sublist ''2017'' (copyright (projr (conf env_2017))) \<and>
   copyright (projr (conf env_2017)) = ''2017-2017, HED Working Group'' \<and>
   year (today env_2024) = 2024 \<and>
   sublist ''2017'' (copyright (projr (conf env_2024))) \<and>
   sublist ''2024'' (copyright (projr (conf env_2024))) \<and>
   decimal_value ''2024'' = 2024 \<and>
   year (today env_9999) = 9999 \<and>
   copyright (projr (conf env_9999)) = ''2017-9999, HED Working Group'' \<and>
   \<not> isl (conf (env_2024 \<lparr> today := today env_2017 \<rparr>))"
proof -
  have y17: "year (today env_2017) = 2017" and y24: "year (today env_2024) = 2024"
    and y99: "year (today env_9999) = 9999"
    by (simp_all add: env_defs)
  have ok: "\<not> isl (conf env_2024)" using conf_env_2024_ok by (metis sum.disc(2))
  have ok99: "conf env_9999 = Inr (projr (conf env_9999))"
    by (simp add: run_defs env_defs)
  have s99: "str_int 9999 = ''9999''"
    by (simp add: str_int_def str_nat.simps digit_char_def)
  have a: "sublist ''2017'' (copyright (projr (conf env_2017))) \<and>
           copyright (projr (conf env_2017)) = ''2017-2017, HED Working Group''"
    using copyright_contains_both_years [of env_2017 "projr (conf env_2017)"]
      conf_env_2017_ok y17 by blast
  have pos: "(0::int) \<le> 2024" by simp
  note t = copyright_contains_both_years [of env_2024 "projr (conf env_2024)",
      THEN conjunct1, THEN mp, OF conf_env_2024_ok, unfolded y24]
  have b: "sublist ''2017'' (copyright (projr (conf env_2024))) \<and>
           sublist (str_int 2024) (copyright (projr (conf env_2024))) \<and>
           int (decimal_value (str_int 2024)) = 2024"
    using t pos by blast
  then have b': "sublist ''2024'' (copyright (projr (conf env_2024))) \<and>
                 decimal_value ''2024'' = 2024"
    by (simp add: str_int_2024)
  note u = copyright_contains_both_years [of env_9999 "projr (conf env_9999)",
      THEN conjunct1, THEN mp, OF ok99, unfolded y99 s99, THEN conjunct1]
  have c: "copyright (projr (conf env_9999)) = ''2017-9999, HED Working Group''"
    using u by simp
  have e: "\<not> isl (conf (env_2024 \<lparr> today := today env_2017 \<rparr>))"
    using copyright_contains_both_years [of env_2024 "projr (conf env_2024)" "today env_2017"] ok
    by blast
  show ?thesis using y17 y24 y99 a b b' c e by blast
qed

subsection \<open>The source root path\<close>





subsection \<open>Failures\<close>



end
